theory Spec2Isabelle
  imports Main "HOL-Library.AList"
begin

section \<open>Strings as the schedule builder uses them\<close>

text \<open>
  A JavaScript string is modelled as a \<^typ>\<open>string\<close> whose characters are the code units
  below 256 (ASCII and Latin-1).  The character classes are the ones the regular expressions
  and string methods of \<^verbatim>\<open>src/lib/fosdem.ts\<close> use on such strings.
\<close>

definition isUpperAZ :: "char \<Rightarrow> bool" where
  \<comment> \<open>the regular-expression class \<^verbatim>\<open>[A-Z]\<close>\<close>
  "isUpperAZ c = (65 \<le> (of_char c :: nat) \<and> (of_char c :: nat) \<le> 90)"

definition isDigit09 :: "char \<Rightarrow> bool" where
  \<comment> \<open>the regular-expression class \<^verbatim>\<open>[0-9]\<close>\<close>
  "isDigit09 c = (48 \<le> (of_char c :: nat) \<and> (of_char c :: nat) \<le> 57)"

definition isWhitespace :: "char \<Rightarrow> bool" where
  \<comment> \<open>the regular-expression class \<^verbatim>\<open>\s\<close> below 256: TAB, LF, VT, FF, CR, space, NBSP\<close>
  "isWhitespace c = ((of_char c :: nat) \<in> {9, 10, 11, 12, 13, 32, 160})"

definition toLowerChar :: "char \<Rightarrow> char" where
  \<comment> \<open>\<^verbatim>\<open>toLowerCase\<close> on one code unit below 256: A-Z and the Latin-1 capitals
      (0xC0-0xDE without the multiplication sign 0xD7) move up by 32\<close>
  "toLowerChar c =
     (let n = (of_char c :: nat)
      in if (65 \<le> n \<and> n \<le> 90) \<or> (192 \<le> n \<and> n \<le> 222 \<and> n \<noteq> 215)
         then char_of (n + 32) else c)"

definition toLowerCase :: "string \<Rightarrow> string" where
  "toLowerCase s = map toLowerChar s"

fun startsWith :: "string \<Rightarrow> string \<Rightarrow> bool" where
  "startsWith s [] = True"
| "startsWith [] (p # ps) = False"
| "startsWith (c # cs) (p # ps) = (c = p \<and> startsWith cs ps)"

definition endsWith :: "string \<Rightarrow> string \<Rightarrow> bool" where
  "endsWith s p = startsWith (rev s) (rev p)"

fun includesStr :: "string \<Rightarrow> string \<Rightarrow> bool" where
  "includesStr [] sub = (sub = [])"
| "includesStr (c # cs) sub = (startsWith (c # cs) sub \<or> includesStr cs sub)"

definition arrayIndex :: "string \<Rightarrow> int option" where
  \<comment> \<open>the number a property key stands for when it is an array index: a decimal numeral
      without a leading zero, below 4294967295\<close>
  "arrayIndex key =
     (let n = foldl (\<lambda>n c. 10 * n + ((of_char c :: int) - 48)) 0 key
      in if key \<noteq> [] \<and> list_all isDigit09 key \<and> (key = ''0'' \<or> hd key \<noteq> CHR ''0'')
            \<and> n < 4294967295
         then Some n else None)"

definition substring :: "nat \<Rightarrow> string \<Rightarrow> string" where
  \<comment> \<open>\<^verbatim>\<open>s.substring(n)\<close>: the empty string once \<open>n\<close> reaches the length\<close>
  "substring n s = drop n s"

text \<open>
  \<^verbatim>\<open>template.replace(pattern, replacement)\<close> with a string pattern replaces the first
  occurrence only, and the replacement string is not taken literally: \<^verbatim>\<open>$$\<close> stands for a
  dollar sign, \<^verbatim>\<open>$&\<close> for the matched text, \<^verbatim>\<open>$`\<close> for the text before the match and
  \<^verbatim>\<open>$'\<close> for the text after it.  A string pattern has no capture groups, so every other
  use of the dollar sign is kept as it is.
\<close>

fun getSubstitution :: "string \<Rightarrow> string \<Rightarrow> string \<Rightarrow> string \<Rightarrow> string" where
  "getSubstitution matched pre post [] = []"
| "getSubstitution matched pre post [c] = [c]"
| "getSubstitution matched pre post (c # d # r) =
     (if c = CHR ''$'' \<and> d = CHR ''$'' then CHR ''$'' # getSubstitution matched pre post r
      else if c = CHR ''$'' \<and> d = CHR ''&'' then matched @ getSubstitution matched pre post r
      else if c = CHR ''$'' \<and> d = CHR 0x60 then pre @ getSubstitution matched pre post r
      else if c = CHR ''$'' \<and> d = CHR 0x27 then post @ getSubstitution matched pre post r
      else c # getSubstitution matched pre post (d # r))"

fun splitAtFirst :: "string \<Rightarrow> string \<Rightarrow> (string \<times> string) option" where
  "splitAtFirst [] pat = (if pat = [] then Some ([], []) else None)"
| "splitAtFirst (c # cs) pat =
     (if startsWith (c # cs) pat then Some ([], drop (length pat) (c # cs))
      else map_option (\<lambda>(b, a). (c # b, a)) (splitAtFirst cs pat))"

definition replaceFirst :: "string \<Rightarrow> string \<Rightarrow> string \<Rightarrow> string" where
  "replaceFirst template pat replacement =
     (case splitAtFirst template pat of
        None \<Rightarrow> template
      | Some (b, a) \<Rightarrow> b @ getSubstitution pat b a replacement @ a)"

section \<open>The tree flattener\<close>





section \<open>Static tables and JavaScript objects\<close>

text \<open>
  \<^verbatim>\<open>constants.ts\<close>: the two link templates, the session types (key and display name, in
  declaration order) and the building ids.
\<close>

definition STREAM_LINK :: string where
  "STREAM_LINK = ''https://stream.fosdem.org/${ROOM_ID}.m3u8''"

definition CHAT_LINK :: string where
  "CHAT_LINK = ''https://chat.fosdem.org/#/room/#${ROOM_ID}:fosdem.org''"

definition TYPES :: "(string \<times> string) list" where
  "TYPES = [(''keynote'', ''Keynotes''), (''maintrack'', ''Main tracks''),
            (''devroom'', ''Developer rooms''), (''lightningtalk'', ''Lightning talks''),
            (''other'', ''Other'')]"

definition BUILDINGS :: "string list" where
  "BUILDINGS = [''J'', ''H'', ''AW'', ''U'', ''K'']"

text \<open>
  The tables of the program are plain objects (\<^verbatim>\<open>{}\<close> or object literals), so reading a
  property or testing it with \<^verbatim>\<open>in\<close> also finds what every object inherits from
  \<^verbatim>\<open>Object.prototype\<close>.  These are the standard inherited names; each of them holds a
  function or an object, hence a truthy value.

  A run can add one more: \<^verbatim>\<open>result.rooms[roomName].eventCount++\<close> for a room named
  \<^verbatim>\<open>__proto__\<close> reads \<^verbatim>\<open>Object.prototype\<close> itself and stores \<^verbatim>\<open>NaN\<close> in its new property
  \<^verbatim>\<open>eventCount\<close>, where it stays for the rest of the run and for every later run.  The flag
  \<open>polluted\<close> says that this has happened.  From then on \<^verbatim>\<open>'eventCount' in obj\<close> holds for
  every object, while reading \<^verbatim>\<open>obj['eventCount']\<close> on an object without such an own key
  gives \<^verbatim>\<open>NaN\<close>, which the truth tests of the program treat like a missing property.
\<close>

definition objectPrototypeKeys :: "string list" where
  "objectPrototypeKeys =
     [''constructor'', ''hasOwnProperty'', ''isPrototypeOf'', ''propertyIsEnumerable'',
      ''toLocaleString'', ''toString'', ''valueOf'', ''__proto__'',
      ''__defineGetter__'', ''__defineSetter__'', ''__lookupGetter__'', ''__lookupSetter__'']"

datatype 'a jsProp = Own 'a | Inherited | Missing

definition getProp :: "(string \<times> 'a) list \<Rightarrow> string \<Rightarrow> 'a jsProp" where
  \<comment> \<open>\<^verbatim>\<open>obj[key]\<close> on a plain object: an own value, an inherited truthy value, or a falsy
      one (\<^verbatim>\<open>undefined\<close>, or the inherited \<^verbatim>\<open>NaN\<close>)\<close>
  "getProp obj key =
     (case map_of obj key of
        Some v \<Rightarrow> Own v
      | None \<Rightarrow> if key \<in> set objectPrototypeKeys then Inherited else Missing)"

definition hasProp :: "bool \<Rightarrow> string list \<Rightarrow> string \<Rightarrow> bool" where
  \<comment> \<open>\<^verbatim>\<open>key in obj\<close> for an object with the given own keys\<close>
  "hasProp polluted ownKeys key =
     (key \<in> set ownKeys \<or> key \<in> set objectPrototypeKeys \<or> (polluted \<and> key = ''eventCount''))"

fun insertNew :: "string \<Rightarrow> 'a \<Rightarrow> (string \<times> 'a) list \<Rightarrow> (string \<times> 'a) list" where
  \<comment> \<open>the place of a new own key: array indices come first, in ascending order, and the other
      keys follow in the order of their creation\<close>
  "insertNew key v [] = [(key, v)]"
| "insertNew key v ((k, w) # rest) =
     (case arrayIndex key of
        None \<Rightarrow> (k, w) # insertNew key v rest
      | Some n \<Rightarrow>
         (case arrayIndex k of
            None \<Rightarrow> (key, v) # (k, w) # rest
          | Some m \<Rightarrow> if n < m then (key, v) # (k, w) # rest else (k, w) # insertNew key v rest))"

definition setProp :: "(string \<times> 'a) list \<Rightarrow> string \<Rightarrow> 'a \<Rightarrow> (string \<times> 'a) list" where
  \<comment> \<open>\<^verbatim>\<open>obj[key] = v\<close> with an object \<open>v\<close>: an own property is replaced in place, a new one
      takes its place in the key order; assigning to \<^verbatim>\<open>__proto__\<close> sets the prototype and
      adds no own property\<close>
  "setProp obj key v =
     (if key = ''__proto__'' then obj
      else if key \<in> fst ` set obj then AList.update key v obj
      else insertNew key v obj)"

definition updateOwn :: "'k \<Rightarrow> ('a \<Rightarrow> 'a) \<Rightarrow> ('k \<times> 'a) list \<Rightarrow> ('k \<times> 'a) list" where
  \<comment> \<open>in-place mutation of the record stored under an own key\<close>
  "updateOwn key f obj = map (\<lambda>(k, v). if k = key then (k, f v) else (k, v)) obj"

definition setAdd :: "'a \<Rightarrow> 'a list \<Rightarrow> 'a list" where
  \<comment> \<open>\<^verbatim>\<open>Set.add\<close>; a \<^verbatim>\<open>Set\<close> is the list of its members in insertion order\<close>
  "setAdd x xs = (if x \<in> set xs then xs else xs @ [x])"

section \<open>The parsed schedule\<close>

text \<open>
  The values the parser delivers for the interfaces \<^verbatim>\<open>XmlEvent\<close>, \<^verbatim>\<open>XmlLink\<close>,
  \<^verbatim>\<open>XmlAttachment\<close>, \<^verbatim>\<open>Room\<close> and \<^verbatim>\<open>Day\<close>.  A child element that occurs once is an object
  and one that occurs several times is an array (\<open>One\<close> and \<open>Many\<close>); \<open>None\<close> is an absent
  child.  Every attribute is a string, the index of a day included.  The text fields that the
  code reads with \<^verbatim>\<open>?.\<close> are \<open>None\<close> when the element or its \<^verbatim>\<open>_text\<close> is absent.  The
  elements \<^verbatim>\<open>start\<close> and \<^verbatim>\<open>duration\<close> and the attributes are read without \<^verbatim>\<open>?.\<close>: they
  are present, as the interfaces require, and \<open>x_start\<close> and \<open>x_duration\<close> are \<open>None\<close> only
  when the element has no text.  Field names carry a prefix because two records cannot share
  one.
\<close>

datatype 'a oneOrMany = One 'a | Many "'a list"

record xmlLink =
  xl_href :: string
  xl_text :: "string option"

record xmlAttachment =
  xa_type :: string
  xa_href :: string
  xa_text :: "string option"

record xmlEvent =
  x_id :: string
  x_title :: "string option"
  x_type :: "string option"
  x_track :: "string option"
  x_persons :: "string oneOrMany option"
  x_links :: "xmlLink oneOrMany option"
  x_attachments :: "xmlAttachment oneOrMany option"
  x_url :: "string option"
  x_language :: "string option"
  x_feedback_url :: "string option"
  x_start :: "string option"
  x_duration :: "string option"
  x_subtitle :: "string option"
  x_abstract :: "string option"
  x_description :: "string option"

record xmlRoom =
  xr_name :: string
  xr_slug :: string
  xr_event :: "xmlEvent oneOrMany option"

record xmlDay =
  xd_index :: string
  xd_date :: string
  xd_start :: string
  xd_end :: string
  xd_room :: "xmlRoom oneOrMany option"

record xmlConference =
  xc_acronym :: "string option"
  xc_title :: "string option"
  xc_subtitle :: "string option"
  xc_venue :: "string option"
  xc_city :: "string option"
  xc_start :: "string option"
  xc_end :: "string option"
  xc_day_change :: "string option"
  xc_timeslot_duration :: "string option"
  xc_time_zone_name :: "string option"

definition toArray :: "'a oneOrMany option \<Rightarrow> 'a option list" where
  \<comment> \<open>\<^verbatim>\<open>Array.isArray(x) ? x : [x]\<close>; an absent child gives \<^verbatim>\<open>[undefined]\<close>\<close>
  "toArray x = (case x of None \<Rightarrow> [None] | Some (One e) \<Rightarrow> [Some e] | Some (Many es) \<Rightarrow> map Some es)"

definition members :: "'a oneOrMany option \<Rightarrow> 'a list" where
  \<comment> \<open>the members when the value is an array; a single object and an absent child have no
      \<^verbatim>\<open>length\<close>, so \<^verbatim>\<open>x?.length > 0\<close> is false for them\<close>
  "members x = (case x of Some (Many xs) \<Rightarrow> xs | _ \<Rightarrow> [])"

section \<open>Conference metadata\<close>

record conference =
  c_acronym :: "string option"
  c_title :: "string option"
  c_subtitle :: "string option"
  c_venue :: "string option"
  c_city :: "string option"
  c_start :: "string option"
  c_end :: "string option"
  c_days :: "string list"
  c_day_change :: "string option"
  c_timeslot_duration :: "string option"
  c_time_zone_name :: "string option"

definition filterBoolean :: "string option list \<Rightarrow> string list" where
  \<comment> \<open>\<^verbatim>\<open>.filter(Boolean)\<close>: \<^verbatim>\<open>undefined\<close> and the empty string are dropped\<close>
  "filterBoolean xs = concat (map (\<lambda>x. case x of None \<Rightarrow> [] | Some s \<Rightarrow> if s = [] then [] else [s]) xs)"

definition flattenConference :: "xmlConference \<Rightarrow> conference" where
  "flattenConference conf =
     \<lparr> c_acronym = xc_acronym conf,
       c_title = xc_title conf,
       c_subtitle = xc_subtitle conf,
       c_venue = xc_venue conf,
       c_city = xc_city conf,
       c_start = xc_start conf,
       c_end = xc_end conf,
       c_days = filterBoolean [xc_start conf, xc_end conf],
       c_day_change = xc_day_change conf,
       c_timeslot_duration = xc_timeslot_duration conf,
       c_time_zone_name = xc_time_zone_name conf \<rparr>"

text \<open>
  The earlier revision of \<^verbatim>\<open>buildData\<close> (kept in the repository next to the current
  file) builds the same record inline and takes \<open>days\<close> from the array of day subtrees.
\<close>

definition buildData_conference :: "xmlConference \<Rightarrow> xmlDay list \<Rightarrow> conference" where
  "buildData_conference conf dayList =
     \<lparr> c_acronym = xc_acronym conf,
       c_title = xc_title conf,
       c_subtitle = xc_subtitle conf,
       c_venue = xc_venue conf,
       c_city = xc_city conf,
       c_start = xc_start conf,
       c_end = xc_end conf,
       c_days = map xd_date dayList,
       c_day_change = xc_day_change conf,
       c_timeslot_duration = xc_timeslot_duration conf,
       c_time_zone_name = xc_time_zone_name conf \<rparr>"

section \<open>The event classifier\<close>

datatype status = Canceled | Amendment | Running | Unknown

record link =
  l_href :: string
  l_title :: string
  l_type :: "string option"

record attachment =
  a_type :: string
  a_href :: string
  a_title :: string

record stream =
  s_href :: string
  s_title :: string
  s_type :: string

record processedEvent =
  e_day :: string
  e_isLive :: bool
  e_status :: status
  e_type :: string
  e_track :: string
  e_trackKey :: string
  e_title :: string
  e_persons :: "string list"
  e_links :: "link list"
  e_attachments :: "attachment list"
  e_streams :: "stream list"
  e_chat :: "string option"
  e_room :: string
  e_url :: "string option"
  e_language :: "string option"
  e_feedbackUrl :: "string option"
  e_id :: string
  e_startTime :: "string option"
  e_duration :: "string option"
  e_subtitle :: "string option"
  e_abstract :: "string option"
  e_description :: "string option"

text \<open>
  \<^verbatim>\<open>getRoomName\<close>, \<^verbatim>\<open>getLinkType\<close> and \<^verbatim>\<open>getStatus\<close> are wrapped in \<^verbatim>\<open>memoize\<close>.
  The functions below are the wrapped ones; the section on \<^verbatim>\<open>memoize\<close> shows that a call
  through the cache returns their value.
\<close>

definition getRoomName :: "string \<Rightarrow> string" where
  "getRoomName name = (if startsWith name ''D.'' then name @ '' (online)'' else name)"

definition getLinkType :: "string \<Rightarrow> string option" where
  "getLinkType url =
     (if endsWith url ''.mp4'' then Some ''video/mp4''
      else if endsWith url ''.webm'' then Some ''video/webm''
      else None)"

definition getStatus :: "string \<Rightarrow> status" where
  "getStatus title =
     (let lowerTitle = toLowerCase title
      in if includesStr lowerTitle ''canceled'' then Canceled
         else if includesStr lowerTitle ''amendment'' then Amendment
         else Running)"

definition getType :: "bool \<Rightarrow> string \<Rightarrow> string" where
  \<comment> \<open>the second argument is \<^verbatim>\<open>event.type._text\<close>\<close>
  "getType polluted type =
     (if type = ''lightning'' then ''lightningtalk''
      else if type = ''lecture'' then ''keynote''
      else if hasProp polluted (map fst TYPES) type then type else ''other'')"

definition processPersons :: "string oneOrMany option \<Rightarrow> string list" where
  "processPersons persons =
     (case persons of
        None \<Rightarrow> []
      | Some (Many person) \<Rightarrow> person
      | Some (One person) \<Rightarrow> [person])"

definition orEmpty :: "string option \<Rightarrow> string" where
  \<comment> \<open>\<^verbatim>\<open>text || ''\<close>\<close>
  "orEmpty text = (case text of None \<Rightarrow> [] | Some t \<Rightarrow> t)"

definition processLink :: "xmlLink \<Rightarrow> link" where
  "processLink lnk =
     \<lparr> l_href = xl_href lnk, l_title = orEmpty (xl_text lnk), l_type = getLinkType (xl_href lnk) \<rparr>"

definition processLinks :: "xmlLink oneOrMany option \<Rightarrow> link list" where
  "processLinks links =
     (case links of
        None \<Rightarrow> []
      | Some (Many lnk) \<Rightarrow> map processLink lnk
      | Some (One lnk) \<Rightarrow> [processLink lnk])"

definition processAttachment :: "xmlAttachment \<Rightarrow> attachment" where
  "processAttachment att =
     \<lparr> a_type = xa_type att, a_href = xa_href att, a_title = orEmpty (xa_text att) \<rparr>"

definition processAttachments :: "xmlAttachment oneOrMany option \<Rightarrow> attachment list" where
  "processAttachments attachments =
     (case attachments of
        None \<Rightarrow> []
      | Some (Many att) \<Rightarrow> map processAttachment att
      | Some (One att) \<Rightarrow> [processAttachment att])"

definition buildStreamInfo :: "string \<Rightarrow> stream list" where
  "buildStreamInfo roomName =
     (let isLiveRoom = \<not> list_ex (\<lambda>prefix. startsWith roomName prefix) [''B.'', ''I.'', ''S.''];
          normalizedRoom = filter (\<lambda>c. c \<noteq> CHR ''.'') (toLowerCase roomName)
      in if \<not> isLiveRoom then []
         else [\<lparr> s_href = replaceFirst STREAM_LINK ''${ROOM_ID}'' normalizedRoom,
                 s_title = ''Stream'',
                 s_type = ''application/vnd.apple.mpegurl'' \<rparr>])"

definition matchesLetterDot :: "string \<Rightarrow> bool" where
  \<comment> \<open>\<^verbatim>\<open>/^[A-Z]\./.test(roomName)\<close>\<close>
  "matchesLetterDot roomName =
     (case roomName of c # d # _ \<Rightarrow> isUpperAZ c \<and> d = CHR ''.'' | _ \<Rightarrow> False)"

definition buildChatInfo :: "string \<Rightarrow> string option" where
  "buildChatInfo roomName =
     (if matchesLetterDot roomName
      then Some (replaceFirst CHAT_LINK ''${ROOM_ID}'' (substring 2 roomName))
      else None)"

definition getTitle :: "string \<Rightarrow> status \<Rightarrow> string" where
  "getTitle title st =
     (if st = Amendment
      then (if substring 10 title = [] then title else substring 10 title)
      else title)"

definition processEvent :: "bool \<Rightarrow> xmlEvent option \<Rightarrow> bool \<Rightarrow> string \<Rightarrow> string
    \<Rightarrow> processedEvent option" where
  \<comment> \<open>\<open>None\<close> is the \<^verbatim>\<open>null\<close> of an excluded event; \<^verbatim>\<open>!x?._text\<close> holds when the text is
      absent or empty; the first argument says whether \<^verbatim>\<open>Object.prototype\<close> has got the
      property \<^verbatim>\<open>eventCount\<close>\<close>
  "processEvent polluted event isLive roomName day =
     (case event of
        None \<Rightarrow> None
      | Some ev \<Rightarrow>
         (case x_title ev of
            None \<Rightarrow> None
          | Some title \<Rightarrow>
              if title = [] then None
              else
                let st = getStatus (toLowerCase title)
                in if st = Canceled then None
                   else
                    (case (x_type ev, x_track ev) of
                       (Some typeText, Some track) \<Rightarrow>
                         if typeText = [] \<or> track = [] then None
                         else
                           let type = getType polluted typeText;
                               trackKey = filter (\<lambda>c. \<not> isWhitespace c) (toLowerCase track)
                           in if type = ''other'' \<and> track = ''stand'' then None
                              else Some
                                \<lparr> e_day = day,
                                  e_isLive = isLive,
                                  e_status = st,
                                  e_type = type,
                                  e_track = track,
                                  e_trackKey = trackKey,
                                  e_title = getTitle title st,
                                  e_persons = processPersons (x_persons ev),
                                  e_links = processLinks (x_links ev),
                                  e_attachments = processAttachments (x_attachments ev),
                                  e_streams = buildStreamInfo roomName,
                                  e_chat = buildChatInfo roomName,
                                  e_room = roomName,
                                  e_url = x_url ev,
                                  e_language = x_language ev,
                                  e_feedbackUrl = x_feedback_url ev,
                                  e_id = x_id ev,
                                  e_startTime = x_start ev,
                                  e_duration = x_duration ev,
                                  e_subtitle = x_subtitle ev,
                                  e_abstract = x_abstract ev,
                                  e_description = x_description ev \<rparr>
                     | _ \<Rightarrow> None)))"

section \<open>The aggregation engine\<close>

text \<open>
  The records of the result.  \<open>typeInfo\<close> and \<open>dayInfo\<close> extend the records that are
  returned by the two or three \<^verbatim>\<open>Set\<close>s the run deletes before it returns.  Counters are
  natural numbers.
\<close>

record typeStats =
  ti_id :: string
  ti_name :: string
  ti_trackCount :: nat
  ti_eventCount :: nat
  ti_roomCount :: nat
  ti_buildingCount :: nat

record typeInfo = typeStats +
  ti_rooms :: "string list"
  ti_buildings :: "string list"

record buildingStats =
  b_name :: string
  b_roomCount :: nat
  b_trackCount :: nat
  b_eventCount :: nat

record dayStats =
  d_date :: string
  d_start :: string
  d_end :: string
  d_id :: string
  d_name :: string
  d_eventCount :: nat
  d_trackCount :: nat
  d_roomCount :: nat
  d_buildingCount :: nat

record dayInfo = dayStats +
  d_rooms :: "string list"
  d_buildings :: "string list"
  d_tracks :: "string list"

record roomInfo =
  r_name :: string
  r_slug :: string
  r_buildingId :: string
  r_building :: "string option"
  r_floor :: "string option"
  r_eventCount :: nat

record trackInfo =
  t_id :: string
  t_name :: string
  t_type :: string
  t_room :: string
  t_day :: "string list"
  t_eventCount :: nat

text \<open>
  The object \<^verbatim>\<open>result\<close> while the loops run, together with the one fact about the
  environment that a run can change (\<open>g_polluted\<close>, no property of \<^verbatim>\<open>result\<close>); and the
  value that is returned.
\<close>

record aggregate =
  g_types :: "(string \<times> typeInfo) list"
  g_buildings :: "(string \<times> buildingStats) list"
  g_days :: "(string \<times> dayInfo) list"
  g_rooms :: "(string \<times> roomInfo) list"
  g_tracks :: "(string \<times> trackInfo) list"
  g_events :: "(string \<times> processedEvent) list"
  g_polluted :: bool

record buildDataResult =
  res_conference :: conference
  res_types :: "(string \<times> typeStats) list"
  res_buildings :: "(string \<times> buildingStats) list"
  res_days :: "(string \<times> dayStats) list"
  res_rooms :: "(string \<times> roomInfo) list"
  res_tracks :: "(string \<times> trackInfo) list"
  res_events :: "(string \<times> processedEvent) list"

definition inferBuildingId :: "string \<Rightarrow> string" where
  \<comment> \<open>\<^verbatim>\<open>roomName.match(/^(AW|[A-Z])/)\<close>, the empty string without a match\<close>
  "inferBuildingId roomName =
     (if startsWith roomName ''AW'' then ''AW''
      else case roomName of
             c # _ \<Rightarrow> if isUpperAZ c then [c] else []
           | [] \<Rightarrow> [])"

definition inferFloor :: "string \<Rightarrow> string option" where
  \<comment> \<open>\<^verbatim>\<open>roomName.match(/^[A-Z]+\.?([0-9]+)/)\<close>: the digits after the leading capitals and
      one optional dot\<close>
  "inferFloor roomName =
     (let rest = dropWhile isUpperAZ roomName;
          rest' = (case rest of c # cs \<Rightarrow> if c = CHR ''.'' then cs else rest | [] \<Rightarrow> []);
          digits = takeWhile isDigit09 rest'
      in if takeWhile isUpperAZ roomName = [] \<or> digits = [] then None else Some digits)"

definition isLiveDay :: "string \<Rightarrow> bool" where
  \<comment> \<open>\<^verbatim>\<open>dayIndex === 1\<close>: the index is the text of an attribute, and a string is never
      strictly equal to a number\<close>
  "isLiveDay dayIndex = False"

fun forEach :: "('a \<Rightarrow> 's \<Rightarrow> 's option) \<Rightarrow> 'a list \<Rightarrow> 's \<Rightarrow> 's option" where
  \<comment> \<open>a \<^verbatim>\<open>for ... of\<close> loop whose body may throw; \<open>None\<close> is the thrown \<^verbatim>\<open>TypeError\<close>\<close>
  "forEach body [] s = Some s"
| "forEach body (x # xs) s = (case body x s of None \<Rightarrow> None | Some s' \<Rightarrow> forEach body xs s')"

text \<open>
  The body of \<^verbatim>\<open>if (event) { ... }\<close>, one table at a time.  A property read that finds an
  inherited value instead of a record goes on with that value; where the next step reads a
  field the value does not have and calls a method on it, the run throws a \<^verbatim>\<open>TypeError\<close>.
\<close>

definition countRoomEvent :: "string \<Rightarrow> (string \<times> roomInfo) list \<Rightarrow> (string \<times> roomInfo) list option" where
  \<comment> \<open>\<^verbatim>\<open>result.rooms[roomName].eventCount++\<close>; on an inherited value the counter lands on
      that value and no room changes\<close>
  "countRoomEvent roomName rooms =
     (case getProp rooms roomName of
        Own _ \<Rightarrow> Some (updateOwn roomName (\<lambda>r. r\<lparr>r_eventCount := r_eventCount r + 1\<rparr>) rooms)
      | Inherited \<Rightarrow> Some rooms
      | Missing \<Rightarrow> None)"

definition updateTrack :: "string \<Rightarrow> string \<Rightarrow> processedEvent \<Rightarrow> (string \<times> trackInfo) list
    \<Rightarrow> (string \<times> trackInfo) list option" where
  "updateTrack roomName dayIndex event tracks =
     (let upserted =
        (case getProp tracks (e_trackKey event) of
           Missing \<Rightarrow>
             Some (setProp tracks (e_trackKey event)
                     \<lparr> t_id = e_trackKey event,
                       t_name = e_track event,
                       t_type = e_type event,
                       t_room = roomName,
                       t_day = [dayIndex],
                       t_eventCount = 0 \<rparr>)
         | Own tr \<Rightarrow>
             Some (if dayIndex \<in> set (t_day tr) then tracks
                   else updateOwn (e_trackKey event) (\<lambda>t. t\<lparr>t_day := t_day t @ [dayIndex]\<rparr>) tracks)
         | Inherited \<Rightarrow> None)
      in map_option
           (updateOwn (e_trackKey event) (\<lambda>t. t\<lparr>t_eventCount := t_eventCount t + 1\<rparr>))
           upserted)"

definition updateTypeStats :: "string \<Rightarrow> string \<Rightarrow> processedEvent \<Rightarrow> (string \<times> typeInfo) list
    \<Rightarrow> (string \<times> typeInfo) list option" where
  "updateTypeStats roomName buildingId event types =
     (case getProp types (e_type event) of
        Own _ \<Rightarrow>
          Some (updateOwn (e_type event)
                  (\<lambda>ty. ty\<lparr> ti_eventCount := ti_eventCount ty + 1,
                            ti_rooms := setAdd roomName (ti_rooms ty),
                            ti_buildings := setAdd buildingId (ti_buildings ty) \<rparr>)
                  types)
      | Inherited \<Rightarrow> None
      | Missing \<Rightarrow> Some types)"

definition updateDayStats :: "string \<Rightarrow> string \<Rightarrow> processedEvent \<Rightarrow> dayInfo \<Rightarrow> dayInfo" where
  "updateDayStats roomName buildingId event dayInfo =
     dayInfo\<lparr> d_eventCount := d_eventCount dayInfo + 1,
              d_rooms := setAdd roomName (d_rooms dayInfo),
              d_buildings := setAdd buildingId (d_buildings dayInfo),
              d_tracks := setAdd (e_trackKey event) (d_tracks dayInfo) \<rparr>"

definition recordEvent :: "string \<Rightarrow> string \<Rightarrow> string \<Rightarrow> processedEvent
    \<Rightarrow> aggregate \<times> dayInfo \<Rightarrow> (aggregate \<times> dayInfo) option" where
  \<comment> \<open>\<^verbatim>\<open>result.rooms\<close> never has an own key \<^verbatim>\<open>__proto__\<close>, so for a room of that name the
      value whose counter is raised is \<^verbatim>\<open>Object.prototype\<close>, which gets the property
      \<^verbatim>\<open>eventCount\<close> by it\<close>
  "recordEvent roomName buildingId dayIndex event st =
     (case st of (result, dayInfo) \<Rightarrow>
       (case countRoomEvent roomName (g_rooms result) of
          None \<Rightarrow> None
        | Some rooms' \<Rightarrow>
           (case updateTrack roomName dayIndex event (g_tracks result) of
              None \<Rightarrow> None
            | Some tracks' \<Rightarrow>
               (case updateTypeStats roomName buildingId event (g_types result) of
                  None \<Rightarrow> None
                | Some types' \<Rightarrow>
                    Some (result\<lparr> g_events := setProp (g_events result) (e_id event) event,
                                  g_rooms := rooms',
                                  g_tracks := tracks',
                                  g_types := types',
                                  g_polluted := (g_polluted result \<or> roomName = ''__proto__'') \<rparr>,
                          updateDayStats roomName buildingId event dayInfo)))))"

definition processRoomEvent :: "string \<Rightarrow> string \<Rightarrow> string \<Rightarrow> xmlEvent option
    \<Rightarrow> aggregate \<times> dayInfo \<Rightarrow> (aggregate \<times> dayInfo) option" where
  "processRoomEvent roomName buildingId dayIndex xmlEvent st =
     (case processEvent (g_polluted (fst st)) xmlEvent (isLiveDay dayIndex) roomName dayIndex of
        None \<Rightarrow> Some st
      | Some event \<Rightarrow> recordEvent roomName buildingId dayIndex event st)"

definition createRoom :: "bool \<Rightarrow> string \<Rightarrow> xmlRoom \<Rightarrow> (string \<times> roomInfo) list
    \<Rightarrow> (string \<times> roomInfo) list" where
  \<comment> \<open>\<^verbatim>\<open>if (!result.rooms[roomName]) result.rooms[roomName] = { ... }\<close>\<close>
  "createRoom polluted roomName room rooms =
     (let buildingId = inferBuildingId roomName
      in case getProp rooms roomName of
           Missing \<Rightarrow>
             setProp rooms roomName
               \<lparr> r_name = roomName,
                 r_slug = xr_slug room,
                 r_buildingId = buildingId,
                 r_building = (if hasProp polluted BUILDINGS buildingId then Some buildingId else None),
                 r_floor = inferFloor roomName,
                 r_eventCount = 0 \<rparr>
         | _ \<Rightarrow> rooms)"

definition updateBuildingStats :: "string \<Rightarrow> string \<Rightarrow> (string \<times> roomInfo) list
    \<Rightarrow> (string \<times> buildingStats) list \<Rightarrow> (string \<times> buildingStats) list" where
  \<comment> \<open>runs once after the events of every room of every day; the room that is read is an own
      record whenever the building is one (a building id is a capital or AW, and no inherited
      name starts with a capital)\<close>
  "updateBuildingStats roomName buildingId rooms buildings =
     (case getProp buildings buildingId of
        Own _ \<Rightarrow>
          updateOwn buildingId
            (\<lambda>b. b\<lparr> b_roomCount := b_roomCount b + 1,
                     b_eventCount := b_eventCount b
                        + (case map_of rooms roomName of Some r \<Rightarrow> r_eventCount r | None \<Rightarrow> 0) \<rparr>)
            buildings
      | _ \<Rightarrow> buildings)"

definition processRoom :: "string \<Rightarrow> xmlRoom \<Rightarrow> aggregate \<times> dayInfo \<Rightarrow> (aggregate \<times> dayInfo) option" where
  "processRoom dayIndex room st =
     (case st of (result, dayInfo) \<Rightarrow>
        let roomName = getRoomName (xr_name room);
            buildingId = inferBuildingId roomName
        in case forEach (processRoomEvent roomName buildingId dayIndex) (toArray (xr_event room))
                  (result\<lparr>g_rooms := createRoom (g_polluted result) roomName room (g_rooms result)\<rparr>,
                   dayInfo) of
             None \<Rightarrow> None
           | Some (result', dayInfo') \<Rightarrow>
               Some (result'\<lparr>g_buildings :=
                        updateBuildingStats roomName buildingId (g_rooms result') (g_buildings result')\<rparr>,
                     dayInfo'))"

definition newDayInfo :: "xmlDay \<Rightarrow> dayInfo" where
  "newDayInfo day =
     \<lparr> d_date = xd_date day, d_start = xd_start day, d_end = xd_end day, d_id = xd_index day,
       d_name = ''Day '' @ xd_index day,
       d_eventCount = 0, d_trackCount = 0, d_roomCount = 0, d_buildingCount = 0,
       d_rooms = [], d_buildings = [], d_tracks = [] \<rparr>"

definition finalDayStats :: "dayInfo \<Rightarrow> dayInfo" where
  "finalDayStats dayInfo =
     dayInfo\<lparr> d_roomCount := length (d_rooms dayInfo),
              d_buildingCount := length (d_buildings dayInfo),
              d_trackCount := length (d_tracks dayInfo) \<rparr>"

definition recountType :: "(string \<times> trackInfo) list \<Rightarrow> typeInfo \<Rightarrow> typeInfo" where
  "recountType tracks ty =
     ty\<lparr> ti_roomCount := length (ti_rooms ty),
         ti_buildingCount := length (ti_buildings ty),
         ti_trackCount :=
           (if tracks \<noteq> [] then length (filter (\<lambda>track. t_type track = ti_id ty) (map snd tracks))
            else ti_trackCount ty) \<rparr>"

definition processDay :: "xmlDay \<Rightarrow> aggregate \<Rightarrow> aggregate option" where
  \<comment> \<open>the rooms are visited when \<^verbatim>\<open>day.room?.length > 0\<close>, that is, when the day has
      several rooms; the test \<^verbatim>\<open>Object.keys(result.types)?.length > 0\<close> around the recount
      is left out, the recount of an empty table being the empty table\<close>
  "processDay day result =
     (let dayIndex = xd_index day
      in case (if length (members (xd_room day)) > 0
               then forEach (processRoom dayIndex) (members (xd_room day)) (result, newDayInfo day)
               else Some (result, newDayInfo day)) of
           None \<Rightarrow> None
         | Some (result', dayInfo) \<Rightarrow>
             Some (result'\<lparr> g_days := setProp (g_days result') dayIndex (finalDayStats dayInfo),
                            g_types := map (\<lambda>(k, ty). (k, recountType (g_tracks result') ty))
                                         (g_types result') \<rparr>))"

definition initialResult :: "bool \<Rightarrow> aggregate" where
  "initialResult polluted =
     \<lparr> g_types = map (\<lambda>(type, name).
                   (type, \<lparr> ti_id = type, ti_name = name, ti_trackCount = 0, ti_eventCount = 0,
                            ti_roomCount = 0, ti_buildingCount = 0,
                            ti_rooms = [], ti_buildings = [] \<rparr>)) TYPES,
       g_buildings = map (\<lambda>building.
                   (building, \<lparr> b_name = building, b_roomCount = 0, b_trackCount = 0,
                                b_eventCount = 0 \<rparr>)) BUILDINGS,
       g_days = [], g_rooms = [], g_tracks = [], g_events = [],
       g_polluted = polluted \<rparr>"

definition cleanUp :: "conference \<Rightarrow> aggregate \<Rightarrow> buildDataResult" where
  \<comment> \<open>the \<^verbatim>\<open>delete\<close> statements before \<^verbatim>\<open>return result\<close>\<close>
  "cleanUp conf result =
     \<lparr> res_conference = conf,
       res_types = map (\<lambda>(k, ty). (k, typeStats.truncate ty)) (g_types result),
       res_buildings = g_buildings result,
       res_days = map (\<lambda>(k, d). (k, dayStats.truncate d)) (g_days result),
       res_rooms = g_rooms result,
       res_tracks = g_tracks result,
       res_events = g_events result \<rparr>"

record parsedData =
  pd_conference :: conference
  pd_day :: "xmlDay oneOrMany option"

definition runDays :: "bool \<Rightarrow> parsedData \<Rightarrow> aggregate option" where
  \<comment> \<open>\<^verbatim>\<open>for (const day of data.day)\<close> on the tables as seeded; a single day is an object and
      an absent one \<^verbatim>\<open>undefined\<close>, neither of which can be iterated\<close>
  "runDays polluted data =
     (case pd_day data of
        Some (Many dayList) \<Rightarrow> forEach processDay dayList (initialResult polluted)
      | _ \<Rightarrow> None)"

definition processScheduleData :: "bool \<Rightarrow> parsedData \<Rightarrow> buildDataResult option" where
  \<comment> \<open>the first argument is the state of \<^verbatim>\<open>Object.prototype\<close> when the run starts (\<open>False\<close>
      in a fresh process); \<open>None\<close>: the run threw and returns nothing\<close>
  "processScheduleData polluted data = map_option (cleanUp (pd_conference data)) (runDays polluted data)"

definition pollutedAfter :: "bool \<Rightarrow> parsedData \<Rightarrow> bool option" where
  \<comment> \<open>the state of \<^verbatim>\<open>Object.prototype\<close> that a run which returns leaves to the next run\<close>
  "pollutedAfter polluted data = map_option g_polluted (runDays polluted data)"

section \<open>Memoization\<close>

text \<open>
  \<^verbatim>\<open>memoize\<close> keeps one \<^verbatim>\<open>Map\<close> per wrapped function for the life of the module.
  \<^verbatim>\<open>cache.get(arg) ?? fn(arg)\<close> takes the stored value unless it is \<^verbatim>\<open>null\<close> or absent, and
  the value is stored in either case.  A cache is the list of its entries; \<open>isNullish\<close> says
  which values of the result type stand for \<^verbatim>\<open>null\<close>.
\<close>

definition memoize :: "('r \<Rightarrow> bool) \<Rightarrow> (string \<Rightarrow> 'r) \<Rightarrow> (string \<times> 'r) list \<Rightarrow> string
    \<Rightarrow> 'r \<times> (string \<times> 'r) list" where
  "memoize isNullish fn cache arg =
     (let value = (case map_of cache arg of
                     None \<Rightarrow> fn arg
                   | Some v \<Rightarrow> if isNullish v then fn arg else v)
      in (value, AList.update arg value cache))"

definition cacheOK :: "(string \<Rightarrow> 'r) \<Rightarrow> (string \<times> 'r) list \<Rightarrow> bool" where
  \<comment> \<open>every entry of the cache is a value of the wrapped function\<close>
  "cacheOK fn cache = (\<forall>(arg, value) \<in> set cache. value = fn arg)"

section \<open>Notions used to state the properties\<close>

definition isCanceledTitle :: "string \<Rightarrow> bool" where
  \<comment> \<open>the title contains "canceled", letter case ignored\<close>
  "isCanceledTitle title = includesStr (toLowerCase title) ''canceled''"

definition isCanceledEvent :: "xmlEvent \<Rightarrow> bool" where
  "isCanceledEvent ev = (case x_title ev of None \<Rightarrow> False | Some title \<Rightarrow> isCanceledTitle title)"

definition mapShape :: "('a \<Rightarrow> 'a) \<Rightarrow> 'a oneOrMany option \<Rightarrow> 'a oneOrMany option" where
  "mapShape f x =
     (case x of
        None \<Rightarrow> None
      | Some (One a) \<Rightarrow> Some (One (f a))
      | Some (Many as) \<Rightarrow> Some (Many (map f as)))"

definition dropCanceledRoom :: "xmlRoom \<Rightarrow> xmlRoom" where
  "dropCanceledRoom room =
     room\<lparr>xr_event :=
       (case xr_event room of
          None \<Rightarrow> None
        | Some (One e) \<Rightarrow> if isCanceledEvent e then None else Some (One e)
        | Some (Many es) \<Rightarrow> Some (Many (filter (\<lambda>e. \<not> isCanceledEvent e) es)))\<rparr>"

definition dropCanceledDay :: "xmlDay \<Rightarrow> xmlDay" where
  "dropCanceledDay day = day\<lparr>xd_room := mapShape dropCanceledRoom (xd_room day)\<rparr>"

definition dropCanceled :: "parsedData \<Rightarrow> parsedData" where
  \<comment> \<open>the same document without its canceled events\<close>
  "dropCanceled data = data\<lparr>pd_day := mapShape dropCanceledDay (pd_day data)\<rparr>"

definition keepsEvent :: "xmlEvent option \<Rightarrow> bool" where
  \<comment> \<open>an event that is there and is not canceled\<close>
  "keepsEvent x = (case x of None \<Rightarrow> False | Some e \<Rightarrow> \<not> isCanceledEvent e)"

text \<open>
  The events the classifier accepts, in the order of the loops.  Whether an event is accepted,
  and with which type, can depend on whether \<^verbatim>\<open>Object.prototype\<close> has got the property
  \<^verbatim>\<open>eventCount\<close> by then, so the flag is carried along: \<open>gather\<close> collects what \<open>sel\<close> gives
  for each member under the flag that \<open>nxt\<close> has made of the members before it.
\<close>

fun gather :: "('e \<Rightarrow> 'a \<Rightarrow> 'b list) \<Rightarrow> ('e \<Rightarrow> 'a \<Rightarrow> 'e) \<Rightarrow> 'e \<Rightarrow> 'a list \<Rightarrow> 'b list" where
  "gather sel nxt e [] = []"
| "gather sel nxt e (x # xs) = sel e x @ gather sel nxt (nxt e x) xs"

definition classify :: "string \<Rightarrow> string \<Rightarrow> bool \<Rightarrow> xmlEvent option \<Rightarrow> processedEvent list" where
  "classify roomName dayIndex polluted x =
     (case processEvent polluted x (isLiveDay dayIndex) roomName dayIndex of
        None \<Rightarrow> []
      | Some event \<Rightarrow> [event])"

definition pollutedAfterEvent :: "string \<Rightarrow> string \<Rightarrow> bool \<Rightarrow> xmlEvent option \<Rightarrow> bool" where
  "pollutedAfterEvent roomName dayIndex polluted x =
     (polluted \<or> (classify roomName dayIndex polluted x \<noteq> [] \<and> roomName = ''__proto__''))"

definition acceptedInRoom :: "bool \<Rightarrow> string \<Rightarrow> xmlRoom \<Rightarrow> processedEvent list" where
  "acceptedInRoom polluted dayIndex room =
     gather (classify (getRoomName (xr_name room)) dayIndex)
       (pollutedAfterEvent (getRoomName (xr_name room)) dayIndex) polluted (toArray (xr_event room))"

definition pollutedAfterRoom :: "bool \<Rightarrow> string \<Rightarrow> xmlRoom \<Rightarrow> bool" where
  "pollutedAfterRoom polluted dayIndex room =
     foldl (pollutedAfterEvent (getRoomName (xr_name room)) dayIndex) polluted (toArray (xr_event room))"

definition acceptedInDay :: "bool \<Rightarrow> xmlDay \<Rightarrow> processedEvent list" where
  "acceptedInDay polluted day =
     gather (\<lambda>p. acceptedInRoom p (xd_index day)) (\<lambda>p. pollutedAfterRoom p (xd_index day)) polluted
       (members (xd_room day))"

definition pollutedAfterDay :: "bool \<Rightarrow> xmlDay \<Rightarrow> bool" where
  "pollutedAfterDay polluted day =
     foldl (\<lambda>p. pollutedAfterRoom p (xd_index day)) polluted (members (xd_room day))"

definition acceptedEvents :: "bool \<Rightarrow> xmlDay list \<Rightarrow> processedEvent list" where
  "acceptedEvents polluted dayList = gather acceptedInDay pollutedAfterDay polluted dayList"

definition runTwice :: "bool \<Rightarrow> parsedData \<Rightarrow> (buildDataResult \<times> buildDataResult) option" where
  \<comment> \<open>two runs on one document in one process: the second run starts with the
      \<^verbatim>\<open>Object.prototype\<close> that the first run leaves\<close>
  "runTwice polluted data =
     (case runDays polluted data of
        None \<Rightarrow> None
      | Some first \<Rightarrow>
          (case runDays (g_polluted first) data of
             None \<Rightarrow> None
           | Some second \<Rightarrow>
               Some (cleanUp (pd_conference data) first, cleanUp (pd_conference data) second)))"

definition firstSeen :: "'a list \<Rightarrow> 'a list" where
  \<comment> \<open>every member once, at the place of its first occurrence\<close>
  "firstSeen xs = rev (remdups (rev xs))"

definition beginsWithCapital :: "string \<Rightarrow> bool" where
  "beginsWithCapital s = (case s of c # _ \<Rightarrow> isUpperAZ c | [] \<Rightarrow> False)"

definition staticKeys :: "aggregate \<Rightarrow> bool" where
  \<comment> \<open>the keys of the two seeded tables are the declared ones, in declaration order\<close>
  "staticKeys result =
     (map fst (g_types result) = map fst TYPES \<and> map fst (g_buildings result) = BUILDINGS)"

definition trackStep :: "processedEvent \<Rightarrow> (string \<times> trackInfo) list \<Rightarrow> (string \<times> trackInfo) list option" where
  \<comment> \<open>what one accepted event does to the track table\<close>
  "trackStep event tracks = updateTrack (e_room event) (e_day event) event tracks"

definition eventsWithTrackKey :: "string \<Rightarrow> processedEvent list \<Rightarrow> processedEvent list" where
  "eventsWithTrackKey key evs = filter (\<lambda>e. e_trackKey e = key) evs"

definition trackOf :: "string \<Rightarrow> processedEvent list \<Rightarrow> trackInfo option" where
  \<comment> \<open>the track record a list of accepted events calls for under a key\<close>
  "trackOf key evs =
     (case eventsWithTrackKey key evs of
        [] \<Rightarrow> None
      | first # later \<Rightarrow>
          Some \<lparr> t_id = key, t_name = e_track first, t_type = e_type first, t_room = e_room first,
                 t_day = firstSeen (map e_day (first # later)),
                 t_eventCount = length (first # later) \<rparr>)"

subsection \<open>Example documents\<close>

text \<open>Every example has several days, and several rooms on each day.\<close>

definition exampleEvent :: "string \<Rightarrow> string \<Rightarrow> string \<Rightarrow> string \<Rightarrow> xmlEvent" where
  "exampleEvent i title type track =
     \<lparr> x_id = i, x_title = Some title, x_type = Some type, x_track = Some track,
       x_persons = None, x_links = None, x_attachments = None, x_url = None, x_language = None,
       x_feedback_url = None, x_start = Some ''10:00'', x_duration = Some ''00:30'',
       x_subtitle = None, x_abstract = None, x_description = None \<rparr>"

definition exampleRoom :: "string \<Rightarrow> string \<Rightarrow> xmlEvent list \<Rightarrow> xmlRoom" where
  \<comment> \<open>a room with one event or with several\<close>
  "exampleRoom name slug events =
     \<lparr> xr_name = name, xr_slug = slug,
       xr_event = (case events of [] \<Rightarrow> None | [e] \<Rightarrow> Some (One e) | _ \<Rightarrow> Some (Many events)) \<rparr>"

definition exampleConference :: xmlConference where
  "exampleConference =
     \<lparr> xc_acronym = Some ''fosdem'', xc_title = Some ''FOSDEM'', xc_subtitle = None,
       xc_venue = Some ''ULB'', xc_city = Some ''Brussels'',
       xc_start = Some ''2025-02-01'', xc_end = Some ''2025-02-03'', xc_day_change = None,
       xc_timeslot_duration = None, xc_time_zone_name = None \<rparr>"

definition exampleDay :: "string \<Rightarrow> string \<Rightarrow> xmlRoom list \<Rightarrow> xmlDay" where
  "exampleDay i date rooms =
     \<lparr> xd_index = i, xd_date = date, xd_start = ''09:00'', xd_end = ''19:00'',
       xd_room = Some (Many rooms) \<rparr>"

definition exampleSchedule :: "xmlDay list \<Rightarrow> parsedData" where
  "exampleSchedule dayList =
     \<lparr> pd_conference = flattenConference exampleConference, pd_day = Some (Many dayList) \<rparr>"

definition quietDay :: "string \<Rightarrow> string \<Rightarrow> xmlDay" where
  \<comment> \<open>a day with one talk in each of two rooms of building H\<close>
  "quietDay i date =
     exampleDay i date
       [exampleRoom ''H.1301'' ''h1301'' [exampleEvent (''9'' @ i @ ''1'') ''Opening'' ''devroom'' ''Ada''],
        exampleRoom ''H.1302'' ''h1302'' [exampleEvent (''9'' @ i @ ''2'') ''Tooling'' ''devroom'' ''Ada'']]"

definition threeDays :: "xmlDay list" where
  "threeDays = [quietDay ''1'' ''2025-02-01'', quietDay ''2'' ''2025-02-02'',
                quietDay ''3'' ''2025-02-03'']"

definition twoRoomSchedule :: parsedData where
  \<comment> \<open>the rooms J.1 and K.2 are used on both days, with one talk per room and day\<close>
  "twoRoomSchedule =
     exampleSchedule
       [exampleDay ''1'' ''2025-02-01''
          [exampleRoom ''J.1'' ''j1'' [exampleEvent ''1'' ''Welcome'' ''lecture'' ''Keynotes''],
           exampleRoom ''K.2'' ''k2'' [exampleEvent ''2'' ''Go basics'' ''devroom'' ''Go'']],
        exampleDay ''2'' ''2025-02-02''
          [exampleRoom ''J.1'' ''j1'' [exampleEvent ''3'' ''Closing'' ''lecture'' ''Keynotes''],
           exampleRoom ''K.2'' ''k2'' [exampleEvent ''4'' ''Go tools'' ''devroom'' ''Go'']]]"

definition inheritedTypeSchedule :: parsedData where
  \<comment> \<open>one talk whose type text is the name of an inherited property\<close>
  "inheritedTypeSchedule =
     exampleSchedule
       [exampleDay ''1'' ''2025-02-01''
          [exampleRoom ''J.1'' ''j1'' [exampleEvent ''1'' ''Welcome'' ''constructor'' ''Keynotes''],
           exampleRoom ''K.2'' ''k2'' [exampleEvent ''2'' ''Go basics'' ''devroom'' ''Go'']],
        quietDay ''2'' ''2025-02-02'']"

definition canceledTalk :: xmlEvent where
  "canceledTalk = exampleEvent ''3'' ''Lunch talk CANCELED'' ''devroom'' ''Go''"

definition scheduleWithCanceled :: parsedData where
  "scheduleWithCanceled =
     exampleSchedule
       [exampleDay ''1'' ''2025-02-01''
          [exampleRoom ''J.1'' ''j1'' [exampleEvent ''1'' ''Welcome'' ''lecture'' ''Keynotes'', canceledTalk],
           exampleRoom ''K.2'' ''k2'' [canceledTalk]],
        quietDay ''2'' ''2025-02-02'']"

definition trackSchedule :: parsedData where
  \<comment> \<open>three talks of one track, spelled in three ways, on two days and in two rooms\<close>
  "trackSchedule =
     exampleSchedule
       [exampleDay ''1'' ''2025-02-01''
          [exampleRoom ''UD2.120'' ''ud2120''
             [exampleEvent ''1'' ''Fast Go'' ''devroom'' ''Go  Performance'',
              exampleEvent ''2'' ''Rust'' ''devroom'' ''Rust''],
           exampleRoom ''K.1.105'' ''k1105''
             [exampleEvent ''3'' ''Faster Go'' ''maintrack'' ''go performance'']],
        exampleDay ''2'' ''2025-02-02''
          [exampleRoom ''K.1.105'' ''k1105''
             [exampleEvent ''4'' ''Fastest Go'' ''maintrack'' ''GO performance''],
           exampleRoom ''H.1301'' ''h1301'' [exampleEvent ''5'' ''Opening'' ''devroom'' ''Ada'']]]"

definition exampleTrack :: trackInfo where
  "exampleTrack =
     \<lparr> t_id = ''goperformance'', t_name = ''Go  Performance'', t_type = ''devroom'',
       t_room = ''UD2.120'', t_day = [''1'', ''2''], t_eventCount = 3 \<rparr>"

definition prototypeSchedule :: parsedData where
  \<comment> \<open>a talk whose type text is \<open>eventCount\<close>, followed by a talk in a room named
      \<open>__proto__\<close>\<close>
  "prototypeSchedule =
     exampleSchedule
       [exampleDay ''1'' ''2025-02-01''
          [exampleRoom ''J.1'' ''j1'' [exampleEvent ''1'' ''Counting'' ''eventCount'' ''Statistics''],
           exampleRoom ''__proto__'' ''proto'' [exampleEvent ''2'' ''Objects'' ''devroom'' ''JavaScript'']],
        quietDay ''2'' ''2025-02-02'']"

definition stageSchedule :: parsedData where
  \<comment> \<open>a talk in a room named \<open>__proto__\<close>, followed by a talk whose type text is
      \<open>eventCount\<close> in a room whose name begins with a small letter\<close>
  "stageSchedule =
     exampleSchedule
       [exampleDay ''1'' ''2025-02-01''
          [exampleRoom ''__proto__'' ''proto'' [exampleEvent ''1'' ''Objects'' ''devroom'' ''JavaScript''],
           exampleRoom ''main stage'' ''main_stage'' [exampleEvent ''2'' ''Concert'' ''eventCount'' ''Music'']],
        quietDay ''2'' ''2025-02-02'']"

section \<open>Properties\<close>

subsection \<open>The tree flattener\<close>







subsection \<open>Conference metadata\<close>

lemma buildData_conference_days:
  "c_days (buildData_conference conf dayList) = map xd_date dayList"
  by (simp add: buildData_conference_def)

lemma flattenConference_days:
  "c_days (flattenConference conf) = filterBoolean [xc_start conf, xc_end conf]"
  by (simp add: flattenConference_def)

text \<open>
  Claim C1 on a conference of three days: \<open>flattenConference\<close> gives the start and the end
  date, not the dates of the three day subtrees, which the earlier inline code gives.
\<close>

theorem flattenConference_days_three_days:
  "c_days (flattenConference exampleConference) = [''2025-02-01'', ''2025-02-03'']
   \<and> map xd_date threeDays = [''2025-02-01'', ''2025-02-02'', ''2025-02-03'']
   \<and> c_days (buildData_conference exampleConference threeDays) = map xd_date threeDays"
  by (simp add: flattenConference_def buildData_conference_def exampleConference_def
        filterBoolean_def threeDays_def quietDay_def exampleDay_def)

subsection \<open>Session type\<close>

lemma getType_own_key:
  "type \<notin> set objectPrototypeKeys \<Longrightarrow> \<not> (polluted \<and> type = ''eventCount'') \<Longrightarrow>
   getType polluted type =
     (if type = ''lightning'' then ''lightningtalk''
      else if type = ''lecture'' then ''keynote''
      else if type \<in> set (map fst TYPES) then type else ''other'')"
  by (auto simp: getType_def hasProp_def)

text \<open>
  Claim C6 at the type text \<open>constructor\<close>, which is no key of the taxonomy: the test
  \<^verbatim>\<open>type in typeData\<close> finds the inherited property, the resolved type is \<open>constructor\<close>
  instead of \<open>other\<close>, and the run that meets such an event throws.
\<close>

theorem getType_inherited_name:
  "''constructor'' \<notin> set (map fst TYPES)
   \<and> getType False ''constructor'' = ''constructor''
   \<and> processScheduleData False inheritedTypeSchedule = None"
  by code_simp

subsection \<open>Streams and chat\<close>

lemma getSubstitution_plain:
  "CHR ''$'' \<notin> set replacement \<Longrightarrow> getSubstitution matched pre post replacement = replacement"
  by (induction matched pre post replacement rule: getSubstitution.induct) auto

lemma stream_link_plain:
  "CHR ''$'' \<notin> set room \<Longrightarrow>
   replaceFirst STREAM_LINK ''${ROOM_ID}'' room = ''https://stream.fosdem.org/'' @ room @ ''.m3u8''"
  by (simp add: replaceFirst_def STREAM_LINK_def getSubstitution_plain)

lemma chat_link_plain:
  "CHR ''$'' \<notin> set room \<Longrightarrow>
   replaceFirst CHAT_LINK ''${ROOM_ID}'' room = ''https://chat.fosdem.org/#/room/#'' @ room @ '':fosdem.org''"
  by (simp add: replaceFirst_def CHAT_LINK_def getSubstitution_plain)

lemma buildStreamInfo_cases:
  "buildStreamInfo roomName =
     (if startsWith roomName ''B.'' \<or> startsWith roomName ''I.'' \<or> startsWith roomName ''S.'' then []
      else [\<lparr> s_href = replaceFirst STREAM_LINK ''${ROOM_ID}''
                          (filter (\<lambda>c. c \<noteq> CHR ''.'') (toLowerCase roomName)),
              s_title = ''Stream'', s_type = ''application/vnd.apple.mpegurl'' \<rparr>])"
  by (simp add: buildStreamInfo_def)

text \<open>
  Claim C7 at the room name \<open>K.$&\<close>: the replacement text is read as a pattern, so the
  marker \<open>$&\<close> is replaced by the placeholder itself instead of being copied into the link.
\<close>

theorem stream_chat_dollar_pattern:
  "map s_href (buildStreamInfo ''K.$&'') = [''https://stream.fosdem.org/k${ROOM_ID}.m3u8'']
   \<and> buildChatInfo ''K.$&'' = Some ''https://chat.fosdem.org/#/room/#${ROOM_ID}:fosdem.org''"
  by code_simp

subsection \<open>Building counters\<close>

text \<open>
  Claim C2 on a schedule of two days that uses the rooms J.1 and K.2 on both, with one accepted
  talk per room and day: one room record of building J and two accepted events in it, but the
  counters of J are 2 and 3.
\<close>

theorem building_counts_room_on_two_days:
  "map_option
     (\<lambda>r. (map_option b_roomCount (map_of (res_buildings r) ''J''),
           map_option b_eventCount (map_of (res_buildings r) ''J''),
           length (filter (\<lambda>room. r_buildingId room = ''J'') (map snd (res_rooms r))),
           length (filter (\<lambda>event. inferBuildingId (e_room event) = ''J'') (map snd (res_events r)))))
     (processScheduleData False twoRoomSchedule)
   = Some (Some 2, Some 3, 1, 2)"
  by code_simp

subsection \<open>Memoization\<close>

lemma cacheOK_map_of: "cacheOK fn cache \<Longrightarrow> map_of cache arg = Some v \<Longrightarrow> v = fn arg"
  by (auto simp: cacheOK_def dest: map_of_SomeD)

lemma cacheOK_update: "cacheOK fn cache \<Longrightarrow> cacheOK fn (AList.update arg (fn arg) cache)"
  by (induction cache) (auto simp: cacheOK_def)

lemma cacheOK_empty: "cacheOK fn []"
  by (simp add: cacheOK_def)

lemma memoize_ok:
  assumes "cacheOK fn cache"
  shows "fst (memoize isNullish fn cache arg) = fn arg"
    and "cacheOK fn (snd (memoize isNullish fn cache arg))"
proof -
  show v: "fst (memoize isNullish fn cache arg) = fn arg"
    using cacheOK_map_of [OF assms, of arg]
    by (auto simp: memoize_def Let_def split: option.splits)
  have "snd (memoize isNullish fn cache arg) = AList.update arg (fst (memoize isNullish fn cache arg)) cache"
    by (simp add: memoize_def Let_def)
  with v cacheOK_update [OF assms, of arg] show "cacheOK fn (snd (memoize isNullish fn cache arg))"
    by simp
qed

subsection \<open>Loops and tables\<close>

lemma forEach_invariant:
  assumes "forEach body xs s = Some s'"
    and "P s"
    and "\<And>x a b. x \<in> set xs \<Longrightarrow> P a \<Longrightarrow> body x a = Some b \<Longrightarrow> P b"
  shows "P s'"
  using assms
proof (induction xs arbitrary: s)
  case Nil
  then show ?case by simp
next
  case (Cons x xs)
  from Cons.prems(1) obtain m where m: "body x s = Some m" and rest: "forEach body xs m = Some s'"
    by (auto split: option.splits)
  have "P m" by (rule Cons.prems(3) [OF _ Cons.prems(2) m]) simp
  show ?case
  proof (rule Cons.IH [OF rest \<open>P m\<close>])
    fix y a b
    assume "y \<in> set xs" "P a" "body y a = Some b"
    then show "P b" using Cons.prems(3) [of y a b] by simp
  qed
qed

lemma forEach_append:
  "forEach body (xs @ ys) s = (case forEach body xs s of None \<Rightarrow> None | Some s' \<Rightarrow> forEach body ys s')"
  by (induction xs arbitrary: s) (auto split: option.splits)

lemma forEach_skip:
  assumes "\<And>x s. x \<in> set xs \<Longrightarrow> \<not> keep x \<Longrightarrow> body x s = Some s"
  shows "forEach body (filter keep xs) s = forEach body xs s"
  using assms by (induction xs arbitrary: s) (auto split: option.splits)

lemma forEach_map: "forEach body (map g xs) s = forEach (\<lambda>x. body (g x)) xs s"
  by (induction xs arbitrary: s) (auto split: option.splits)

lemma map_fst_updateOwn [simp]: "map fst (updateOwn key f obj) = map fst obj"
  by (induction obj) (auto simp: updateOwn_def)

lemma members_mapShape [simp]: "members (mapShape f x) = map f (members x)"
  by (simp add: members_def mapShape_def split: option.splits oneOrMany.splits)

subsection \<open>The seeded tables\<close>

lemma updateTypeStats_keys:
  "updateTypeStats roomName buildingId event types = Some types' \<Longrightarrow> map fst types' = map fst types"
  by (auto simp: updateTypeStats_def split: jsProp.splits)

lemma recordEvent_staticKeys:
  "recordEvent roomName buildingId dayIndex event (result, dayInfo) = Some (result', dayInfo') \<Longrightarrow>
   staticKeys result \<Longrightarrow> staticKeys result'"
  by (auto simp: recordEvent_def staticKeys_def split: option.splits dest: updateTypeStats_keys)

lemma processRoomEvent_staticKeys:
  "processRoomEvent roomName buildingId dayIndex xmlEvent st = Some st' \<Longrightarrow>
   staticKeys (fst st) \<Longrightarrow> staticKeys (fst st')"
  by (cases st; cases st') (auto simp: processRoomEvent_def split: option.splits dest: recordEvent_staticKeys)

lemma updateBuildingStats_keys [simp]:
  "map fst (updateBuildingStats roomName buildingId rooms buildings) = map fst buildings"
  by (simp add: updateBuildingStats_def split: jsProp.splits)

lemma processRoom_staticKeys:
  assumes "processRoom dayIndex room st = Some st'" and "staticKeys (fst st)"
  shows "staticKeys (fst st')"
proof -
  obtain result dayInfo where st: "st = (result, dayInfo)" by (cases st)
  let ?start = "(result\<lparr>g_rooms := createRoom (g_polluted result) (getRoomName (xr_name room)) room (g_rooms result)\<rparr>, dayInfo)"
  from assms(1) obtain mid where
    loop: "forEach (processRoomEvent (getRoomName (xr_name room)) (inferBuildingId (getRoomName (xr_name room))) dayIndex)
             (toArray (xr_event room)) ?start = Some mid"
    and st': "st' = (fst mid\<lparr>g_buildings := updateBuildingStats (getRoomName (xr_name room))
                       (inferBuildingId (getRoomName (xr_name room))) (g_rooms (fst mid)) (g_buildings (fst mid))\<rparr>, snd mid)"
    by (auto simp: processRoom_def st Let_def split: option.splits)
  have "staticKeys (fst ?start)" using assms(2) by (simp add: st staticKeys_def)
  with loop have "staticKeys (fst mid)"
    by (rule forEach_invariant [where P = "\<lambda>s. staticKeys (fst s)"]) (rule processRoomEvent_staticKeys)
  then show ?thesis by (simp add: st' staticKeys_def)
qed

lemma processDay_staticKeys:
  assumes "processDay day result = Some result'" and "staticKeys result"
  shows "staticKeys result'"
proof -
  from assms(1) obtain mid where
    loop: "(if length (members (xd_room day)) > 0
            then forEach (processRoom (xd_index day)) (members (xd_room day)) (result, newDayInfo day)
            else Some (result, newDayInfo day)) = Some mid"
    and r': "result' = (fst mid)\<lparr> g_days := setProp (g_days (fst mid)) (xd_index day) (finalDayStats (snd mid)),
                            g_types := map (\<lambda>(k, ty). (k, recountType (g_tracks (fst mid)) ty)) (g_types (fst mid)) \<rparr>"
    by (auto simp: processDay_def Let_def split: option.splits)
  have "staticKeys (fst mid)"
  proof (cases "length (members (xd_room day)) > 0")
    case True
    with loop have "forEach (processRoom (xd_index day)) (members (xd_room day)) (result, newDayInfo day) = Some mid"
      by simp
    then show ?thesis
      by (rule forEach_invariant [where P = "\<lambda>s. staticKeys (fst s)"])
         (use assms(2) in \<open>auto intro: processRoom_staticKeys\<close>)
  next
    case False
    with loop assms(2) show ?thesis by auto
  qed
  then show ?thesis
    by (simp add: r' staticKeys_def case_prod_unfold comp_def)
qed

lemma initialResult_staticKeys: "staticKeys (initialResult polluted)"
  by (simp add: staticKeys_def initialResult_def case_prod_unfold comp_def)

lemma runDays_Some:
  "runDays polluted data = Some result \<Longrightarrow>
   forEach processDay (members (pd_day data)) (initialResult polluted) = Some result"
  by (auto simp: runDays_def members_def split: option.splits oneOrMany.splits)

text \<open>
  Claim C5: whenever the run returns a result, whatever \<^verbatim>\<open>Object.prototype\<close> was when it
  started, the session-type table has exactly the five declared keys and the building table
  has exactly the five declared keys.
\<close>

theorem static_tables_keep_their_keys:
  assumes "processScheduleData polluted data = Some r"
  shows "map fst (res_types r) = [''keynote'', ''maintrack'', ''devroom'', ''lightningtalk'', ''other'']
       \<and> map fst (res_buildings r) = [''J'', ''H'', ''AW'', ''U'', ''K'']"
proof -
  from assms obtain result where
    run: "runDays polluted data = Some result"
    and r: "r = cleanUp (pd_conference data) result"
    by (auto simp: processScheduleData_def)
  from runDays_Some [OF run] have "staticKeys result"
    by (rule forEach_invariant) (auto intro: initialResult_staticKeys processDay_staticKeys)
  then show ?thesis
    by (simp add: r cleanUp_def staticKeys_def case_prod_unfold comp_def TYPES_def BUILDINGS_def)
qed

theorem static_tables_keep_their_keys_witness:
  "processScheduleData False stageSchedule \<noteq> None
   \<and> map fst (res_types (the (processScheduleData False stageSchedule)))
        = [''keynote'', ''maintrack'', ''devroom'', ''lightningtalk'', ''other'']
   \<and> map fst (res_buildings (the (processScheduleData False stageSchedule))) = [''J'', ''H'', ''AW'', ''U'', ''K'']"
proof -
  have h: "processScheduleData False stageSchedule = Some (the (processScheduleData False stageSchedule))"
    by code_simp
  from h have "processScheduleData False stageSchedule \<noteq> None" by (metis option.distinct(1))
  with static_tables_keep_their_keys [OF h] show ?thesis by simp
qed

subsection \<open>Canceled events\<close>

lemma toLowerChar_idem [simp]: "toLowerChar (toLowerChar c) = toLowerChar c"
  unfolding toLowerChar_def Let_def by (auto simp: of_char_of)

lemma toLowerCase_idem [simp]: "toLowerCase (toLowerCase s) = toLowerCase s"
  by (simp add: toLowerCase_def)

lemma getStatus_canceled:
  "isCanceledTitle title \<Longrightarrow> getStatus (toLowerCase title) = Canceled"
  by (simp add: getStatus_def isCanceledTitle_def)

lemma processEvent_canceled:
  "isCanceledEvent ev \<Longrightarrow> processEvent polluted (Some ev) isLive roomName day = None"
  by (auto simp: processEvent_def isCanceledEvent_def getStatus_canceled split: option.splits)

lemma processEvent_not_kept:
  "\<not> keepsEvent x \<Longrightarrow> processEvent polluted x isLive roomName day = None"
proof (cases x)
  case None
  then show ?thesis by (simp add: processEvent_def)
next
  case (Some e)
  assume "\<not> keepsEvent x"
  with Some have "isCanceledEvent e" by (simp add: keepsEvent_def)
  with Some show ?thesis by (simp add: processEvent_canceled)
qed

lemma keepsEvent_dropCanceledRoom:
  "filter keepsEvent (toArray (xr_event (dropCanceledRoom room))) = filter keepsEvent (toArray (xr_event room))"
proof (cases "xr_event room")
  case None
  then show ?thesis by (simp add: dropCanceledRoom_def)
next
  case (Some shape)
  show ?thesis
  proof (cases shape)
    case (One e)
    with Some show ?thesis by (simp add: dropCanceledRoom_def toArray_def keepsEvent_def)
  next
    case (Many es)
    have "filter keepsEvent (map Some (filter (\<lambda>e. \<not> isCanceledEvent e) es)) = filter keepsEvent (map Some es)"
      by (induction es) (auto simp: keepsEvent_def)
    with Some Many show ?thesis by (simp add: dropCanceledRoom_def toArray_def)
  qed
qed

lemma forEach_kept:
  "forEach (processRoomEvent roomName buildingId dayIndex) (filter keepsEvent xs) st
   = forEach (processRoomEvent roomName buildingId dayIndex) xs st"
  by (rule forEach_skip) (simp add: processRoomEvent_def processEvent_not_kept)

lemma dropCanceledRoom_fields [simp]:
  "xr_name (dropCanceledRoom room) = xr_name room"
  "xr_slug (dropCanceledRoom room) = xr_slug room"
  by (simp_all add: dropCanceledRoom_def)

lemma createRoom_dropCanceledRoom [simp]:
  "createRoom polluted roomName (dropCanceledRoom room) = createRoom polluted roomName room"
  by (rule ext) (simp add: createRoom_def Let_def cong: jsProp.case_cong)

lemma dropCanceledDay_fields [simp]:
  "xd_index (dropCanceledDay day) = xd_index day"
  "members (xd_room (dropCanceledDay day)) = map dropCanceledRoom (members (xd_room day))"
  "newDayInfo (dropCanceledDay day) = newDayInfo day"
  by (simp_all add: dropCanceledDay_def newDayInfo_def)

lemma processRoom_dropCanceledRoom:
  "processRoom dayIndex (dropCanceledRoom room) = processRoom dayIndex room"
proof (rule ext)
  fix st
  have "forEach (processRoomEvent roomName buildingId dayIndex) (toArray (xr_event (dropCanceledRoom room))) s
        = forEach (processRoomEvent roomName buildingId dayIndex) (toArray (xr_event room)) s"
    for roomName buildingId s
    using forEach_kept [of roomName buildingId dayIndex "toArray (xr_event (dropCanceledRoom room))" s]
          forEach_kept [of roomName buildingId dayIndex "toArray (xr_event room)" s]
    by (simp add: keepsEvent_dropCanceledRoom)
  then show "processRoom dayIndex (dropCanceledRoom room) st = processRoom dayIndex room st"
    by (simp add: processRoom_def Let_def cong: prod.case_cong)
qed

lemma processDay_dropCanceledDay:
  "processDay (dropCanceledDay day) = processDay day"
  by (rule ext) (simp add: processDay_def forEach_map processRoom_dropCanceledRoom cong: if_cong)

lemma runDays_dropCanceled:
  "runDays polluted (dropCanceled data) = runDays polluted data"
  by (simp add: runDays_def dropCanceled_def mapShape_def forEach_map processDay_dropCanceledDay
        split: option.splits oneOrMany.splits)

text \<open>
  Claim C4: the classifier excludes every event whose title contains "canceled" in any letter
  case, and the result of the run is the result for the same document without those events:
  they are in no table and change no counter of a room, track, day, session type or building.
  This holds whatever \<^verbatim>\<open>Object.prototype\<close> was when the run started, and the run leaves it
  as the run without those events does.
\<close>

theorem canceled_events_leave_no_trace:
  "(isCanceledEvent ev \<longrightarrow> processEvent polluted (Some ev) isLive roomName day = None)
   \<and> processScheduleData polluted (dropCanceled data) = processScheduleData polluted data
   \<and> pollutedAfter polluted (dropCanceled data) = pollutedAfter polluted data"
proof -
  have "pd_conference (dropCanceled data) = pd_conference data"
    by (simp add: dropCanceled_def)
  then show ?thesis
    by (simp add: processEvent_canceled processScheduleData_def pollutedAfter_def runDays_dropCanceled)
qed

theorem canceled_events_leave_no_trace_witness:
  "isCanceledEvent canceledTalk
   \<and> processEvent False (Some canceledTalk) False ''J.1'' ''1'' = None
   \<and> dropCanceled scheduleWithCanceled \<noteq> scheduleWithCanceled
   \<and> processScheduleData False scheduleWithCanceled \<noteq> None
   \<and> processScheduleData False (dropCanceled scheduleWithCanceled) = processScheduleData False scheduleWithCanceled"
proof -
  have c: "isCanceledEvent canceledTalk" by code_simp
  have d: "dropCanceled scheduleWithCanceled \<noteq> scheduleWithCanceled" by code_simp
  have e: "processScheduleData False scheduleWithCanceled \<noteq> None" by code_simp
  from canceled_events_leave_no_trace [of canceledTalk False False "''J.1''" "''1''" scheduleWithCanceled] c d e
  show ?thesis by simp
qed

subsection \<open>Property assignment\<close>

lemma set_insertNew [simp]: "set (insertNew key v obj) = insert (key, v) (set obj)"
  by (induction obj) (auto split: option.splits if_splits)

lemma map_of_insertNew:
  "key \<notin> fst ` set obj \<Longrightarrow> map_of (insertNew key v obj) k = (if k = key then Some v else map_of obj k)"
  by (induction obj) (auto split: option.splits)

lemma distinct_insertNew:
  "key \<notin> fst ` set obj \<Longrightarrow> distinct (map fst obj) \<Longrightarrow> distinct (map fst (insertNew key v obj))"
  by (induction obj) (auto split: option.splits)

lemma map_of_setProp:
  "key \<noteq> ''__proto__'' \<Longrightarrow> map_of (setProp obj key v) k = (if k = key then Some v else map_of obj k)"
  by (simp add: setProp_def update_conv' map_of_insertNew)

lemma distinct_setProp:
  "distinct (map fst obj) \<Longrightarrow> distinct (map fst (setProp obj key v))"
  by (simp add: setProp_def distinct_update distinct_insertNew)

lemma map_of_updateOwn:
  "map_of (updateOwn key f obj) k = (if k = key then map_option f (map_of obj key) else map_of obj k)"
  by (induction obj) (auto simp: updateOwn_def)

subsection \<open>Tracks\<close>

lemma forEach_gather:
  assumes "forEach body xs s = Some s'"
    and "\<And>x a b. x \<in> set xs \<Longrightarrow> body x a = Some b \<Longrightarrow>
           forEach step (sel (env a) x) (proj a) = Some (proj b) \<and> env b = nxt (env a) x"
  shows "forEach step (gather sel nxt (env s) xs) (proj s) = Some (proj s') \<and> env s' = foldl nxt (env s) xs"
  using assms
proof (induction xs arbitrary: s)
  case Nil
  then show ?case by simp
next
  case (Cons x xs)
  from Cons.prems(1) obtain m where m: "body x s = Some m" and rest: "forEach body xs m = Some s'"
    by (auto split: option.splits)
  have first: "forEach step (sel (env s) x) (proj s) = Some (proj m) \<and> env m = nxt (env s) x"
    by (rule Cons.prems(2) [OF _ m]) simp
  have "forEach step (gather sel nxt (env m) xs) (proj m) = Some (proj s') \<and> env s' = foldl nxt (env m) xs"
  proof (rule Cons.IH [OF rest])
    fix y a b
    assume "y \<in> set xs" "body y a = Some b"
    then show "forEach step (sel (env a) y) (proj a) = Some (proj b) \<and> env b = nxt (env a) y"
      using Cons.prems(2) [of y a b] by simp
  qed
  with first show ?case by (simp add: forEach_append)
qed

lemma processEvent_fields:
  assumes "processEvent polluted x isLive roomName day = Some event"
  shows "e_room event = roomName" and "e_day event = day"
    and "e_trackKey event = filter (\<lambda>c. \<not> isWhitespace c) (toLowerCase (e_track event))"
  using assms
  by (auto simp: processEvent_def Let_def split: option.splits if_splits)

lemma recordEvent_tracks:
  assumes "recordEvent roomName buildingId dayIndex event (result, dayInfo) = Some (result', dayInfo')"
  shows "updateTrack roomName dayIndex event (g_tracks result) = Some (g_tracks result')"
    and "g_polluted result' = (g_polluted result \<or> roomName = ''__proto__'')"
  using assms by (auto simp: recordEvent_def split: option.splits)

lemma processRoomEvent_tracks:
  assumes "processRoomEvent roomName buildingId dayIndex x st = Some st'"
  shows "forEach trackStep (classify roomName dayIndex (g_polluted (fst st)) x) (g_tracks (fst st))
           = Some (g_tracks (fst st'))
         \<and> g_polluted (fst st') = pollutedAfterEvent roomName dayIndex (g_polluted (fst st)) x"
proof (cases "processEvent (g_polluted (fst st)) x (isLiveDay dayIndex) roomName dayIndex")
  case None
  with assms show ?thesis by (simp add: processRoomEvent_def classify_def pollutedAfterEvent_def)
next
  case (Some event)
  obtain result dayInfo result' dayInfo' where st: "st = (result, dayInfo)" "st' = (result', dayInfo')"
    by (cases st; cases st')
  from assms Some have "recordEvent roomName buildingId dayIndex event (result, dayInfo) = Some (result', dayInfo')"
    by (simp add: processRoomEvent_def st)
  from recordEvent_tracks [OF this] processEvent_fields(1,2) [OF Some] Some
  show ?thesis by (simp add: trackStep_def st classify_def pollutedAfterEvent_def)
qed

lemma processRoom_tracks:
  assumes "processRoom dayIndex room st = Some st'"
  shows "forEach trackStep (acceptedInRoom (g_polluted (fst st)) dayIndex room) (g_tracks (fst st))
           = Some (g_tracks (fst st'))
         \<and> g_polluted (fst st') = pollutedAfterRoom (g_polluted (fst st)) dayIndex room"
proof -
  obtain result dayInfo where st: "st = (result, dayInfo)" by (cases st)
  let ?rn = "getRoomName (xr_name room)"
  let ?start = "(result\<lparr>g_rooms := createRoom (g_polluted result) ?rn room (g_rooms result)\<rparr>, dayInfo)"
  from assms obtain mid where
    loop: "forEach (processRoomEvent ?rn (inferBuildingId ?rn) dayIndex) (toArray (xr_event room)) ?start = Some mid"
    and st': "g_tracks (fst st') = g_tracks (fst mid)" "g_polluted (fst st') = g_polluted (fst mid)"
    by (auto simp: processRoom_def st Let_def split: option.splits)
  from loop have "forEach trackStep
      (gather (classify ?rn dayIndex) (pollutedAfterEvent ?rn dayIndex) (g_polluted (fst ?start))
         (toArray (xr_event room))) (g_tracks (fst ?start)) = Some (g_tracks (fst mid))
    \<and> g_polluted (fst mid) = foldl (pollutedAfterEvent ?rn dayIndex) (g_polluted (fst ?start)) (toArray (xr_event room))"
    by (rule forEach_gather [where proj = "\<lambda>s. g_tracks (fst s)" and env = "\<lambda>s. g_polluted (fst s)"])
       (rule processRoomEvent_tracks)
  then show ?thesis
    by (simp add: acceptedInRoom_def pollutedAfterRoom_def st st')
qed

lemma processDay_tracks:
  assumes "processDay day result = Some result'"
  shows "forEach trackStep (acceptedInDay (g_polluted result) day) (g_tracks result) = Some (g_tracks result')
         \<and> g_polluted result' = pollutedAfterDay (g_polluted result) day"
proof -
  from assms obtain mid where
    loop: "(if length (members (xd_room day)) > 0
            then forEach (processRoom (xd_index day)) (members (xd_room day)) (result, newDayInfo day)
            else Some (result, newDayInfo day)) = Some mid"
    and r': "g_tracks result' = g_tracks (fst mid)" "g_polluted result' = g_polluted (fst mid)"
    by (auto simp: processDay_def Let_def split: option.splits)
  from loop have "forEach (processRoom (xd_index day)) (members (xd_room day)) (result, newDayInfo day) = Some mid"
    by (cases "members (xd_room day)") (auto split: if_splits)
  then have "forEach trackStep
               (gather (\<lambda>p. acceptedInRoom p (xd_index day)) (\<lambda>p. pollutedAfterRoom p (xd_index day))
                  (g_polluted (fst (result, newDayInfo day))) (members (xd_room day)))
               (g_tracks (fst (result, newDayInfo day))) = Some (g_tracks (fst mid))
             \<and> g_polluted (fst mid)
               = foldl (\<lambda>p. pollutedAfterRoom p (xd_index day)) (g_polluted (fst (result, newDayInfo day)))
                   (members (xd_room day))"
    by (rule forEach_gather [where proj = "\<lambda>s. g_tracks (fst s)" and env = "\<lambda>s. g_polluted (fst s)"])
       (rule processRoom_tracks)
  then show ?thesis by (simp add: acceptedInDay_def pollutedAfterDay_def r')
qed

lemma run_tracks:
  assumes "forEach processDay dayList result = Some result'"
  shows "forEach trackStep (acceptedEvents (g_polluted result) dayList) (g_tracks result) = Some (g_tracks result')"
proof -
  from assms have "forEach trackStep (gather acceptedInDay pollutedAfterDay (g_polluted result) dayList)
        (g_tracks result) = Some (g_tracks result')
      \<and> g_polluted result' = foldl pollutedAfterDay (g_polluted result) dayList"
    by (rule forEach_gather) (rule processDay_tracks)
  then show ?thesis by (simp add: acceptedEvents_def)
qed

lemma firstSeen_snoc:
  "firstSeen (xs @ [x]) = (if x \<in> set xs then firstSeen xs else firstSeen xs @ [x])"
  by (simp add: firstSeen_def)

lemma set_firstSeen [simp]: "set (firstSeen xs) = set xs"
  by (simp add: firstSeen_def)

lemma distinct_firstSeen [simp]: "distinct (firstSeen xs)"
  by (simp add: firstSeen_def)

lemma trackOf_snoc_other:
  "e_trackKey e \<noteq> k \<Longrightarrow> trackOf k (evs @ [e]) = trackOf k evs"
  by (simp add: trackOf_def eventsWithTrackKey_def)

lemma trackOf_snoc_new:
  "trackOf (e_trackKey e) evs = None \<Longrightarrow>
   trackOf (e_trackKey e) (evs @ [e]) =
     Some \<lparr> t_id = e_trackKey e, t_name = e_track e, t_type = e_type e, t_room = e_room e,
            t_day = [e_day e], t_eventCount = 1 \<rparr>"
  by (auto simp: trackOf_def eventsWithTrackKey_def firstSeen_def split: list.splits)

lemma trackOf_snoc_old:
  "trackOf (e_trackKey e) evs = Some tr \<Longrightarrow>
   trackOf (e_trackKey e) (evs @ [e]) =
     Some (tr\<lparr> t_day := (if e_day e \<in> set (t_day tr) then t_day tr else t_day tr @ [e_day e]),
               t_eventCount := t_eventCount tr + 1 \<rparr>)"
  by (auto simp: trackOf_def eventsWithTrackKey_def firstSeen_snoc [of "_ # _", simplified] split: list.splits)

lemma trackStep_trackOf:
  assumes step: "trackStep e tracks0 = Some tracks"
    and inv: "\<And>k. map_of tracks0 k = trackOf k evs"
  shows "map_of tracks k = trackOf k (evs @ [e])"
proof (cases "getProp tracks0 (e_trackKey e)")
  case (Own tr)
  then have tr: "map_of tracks0 (e_trackKey e) = Some tr"
    by (auto simp: getProp_def split: option.splits if_splits)
  with inv have old: "trackOf (e_trackKey e) evs = Some tr" by simp
  from step Own have tracks: "tracks = updateOwn (e_trackKey e) (\<lambda>t. t\<lparr>t_eventCount := t_eventCount t + 1\<rparr>)
      (if e_day e \<in> set (t_day tr) then tracks0
       else updateOwn (e_trackKey e) (\<lambda>t. t\<lparr>t_day := t_day t @ [e_day e]\<rparr>) tracks0)"
    by (auto simp: trackStep_def updateTrack_def)
  show ?thesis
  proof (cases "k = e_trackKey e")
    case True
    then show ?thesis
      by (simp add: tracks map_of_updateOwn tr trackOf_snoc_old [OF old])
  next
    case False
    then show ?thesis
      by (simp add: tracks map_of_updateOwn inv trackOf_snoc_other)
  qed
next
  case Inherited
  with step show ?thesis by (simp add: trackStep_def updateTrack_def)
next
  case Missing
  then have none: "map_of tracks0 (e_trackKey e) = None" and notproto: "e_trackKey e \<noteq> ''__proto__''"
    by (auto simp: getProp_def objectPrototypeKeys_def split: option.splits if_splits)
  with inv have new: "trackOf (e_trackKey e) evs = None" by simp
  from step Missing have tracks:
    "tracks = updateOwn (e_trackKey e) (\<lambda>t. t\<lparr>t_eventCount := t_eventCount t + 1\<rparr>)
       (setProp tracks0 (e_trackKey e)
          \<lparr> t_id = e_trackKey e, t_name = e_track e, t_type = e_type e, t_room = e_room e,
            t_day = [e_day e], t_eventCount = 0 \<rparr>)"
    by (auto simp: trackStep_def updateTrack_def)
  show ?thesis
  proof (cases "k = e_trackKey e")
    case True
    then show ?thesis
      by (simp add: tracks map_of_updateOwn map_of_setProp [OF notproto] trackOf_snoc_new [OF new])
  next
    case False
    then show ?thesis
      by (simp add: tracks map_of_updateOwn map_of_setProp [OF notproto] inv trackOf_snoc_other)
  qed
qed

lemma updateTrack_distinct:
  assumes "updateTrack roomName dayIndex e tracks0 = Some tracks" and "distinct (map fst tracks0)"
  shows "distinct (map fst tracks)"
  using assms
  by (auto simp: updateTrack_def distinct_setProp split: jsProp.splits if_splits)

lemma tracks_trackOf:
  assumes "forEach trackStep evs [] = Some tracks"
  shows "map_of tracks k = trackOf k evs \<and> distinct (map fst tracks)"
  using assms
proof (induction evs arbitrary: tracks k rule: rev_induct)
  case Nil
  then show ?case by (simp add: trackOf_def eventsWithTrackKey_def)
next
  case (snoc e evs)
  from snoc.prems obtain tracks0 where
    before: "forEach trackStep evs [] = Some tracks0" and step: "trackStep e tracks0 = Some tracks"
    by (auto simp: forEach_append split: option.splits)
  have inv: "\<And>k. map_of tracks0 k = trackOf k evs" and d: "distinct (map fst tracks0)"
    using snoc.IH [OF before] by auto
  from trackStep_trackOf [OF step inv] updateTrack_distinct [OF step [unfolded trackStep_def] d]
  show ?case by simp
qed

lemma set_gather:
  "e \<in> set (gather sel nxt p xs) \<Longrightarrow> \<exists>q x. x \<in> set xs \<and> e \<in> set (sel q x)"
proof (induction xs arbitrary: p)
  case Nil
  then show ?case by simp
next
  case (Cons a xs)
  from Cons.prems have "e \<in> set (sel p a) \<or> e \<in> set (gather sel nxt (nxt p a) xs)"
    by simp
  then show ?case
  proof
    assume "e \<in> set (sel p a)"
    then show ?thesis by auto
  next
    assume "e \<in> set (gather sel nxt (nxt p a) xs)"
    from Cons.IH [OF this] show ?thesis by auto
  qed
qed

lemma acceptedEvents_classified:
  assumes "e \<in> set (acceptedEvents polluted dayList)"
  shows "\<exists>q x isLive roomName day. processEvent q x isLive roomName day = Some e"
proof -
  from assms obtain q1 day where "e \<in> set (acceptedInDay q1 day)"
    unfolding acceptedEvents_def by (blast dest: set_gather)
  then obtain q2 room where "e \<in> set (acceptedInRoom q2 (xd_index day) room)"
    unfolding acceptedInDay_def by (blast dest: set_gather)
  then obtain q3 x where "e \<in> set (classify (getRoomName (xr_name room)) (xd_index day) q3 x)"
    unfolding acceptedInRoom_def by (blast dest: set_gather)
  then have "processEvent q3 x (isLiveDay (xd_index day)) (getRoomName (xr_name room)) (xd_index day) = Some e"
    by (auto simp: classify_def split: option.splits)
  then show ?thesis by blast
qed

text \<open>
  Claim C8: in every result, the track stored under a key has the name, the type and the room
  of the first accepted event with that track key (in document order), its day list is the
  list of the days of the accepted events with that key, each once and in the order of first
  occurrence, and its event count is the number of those events.  The track key of an
  accepted event is its track name in lower case with all whitespace removed.  The accepted
  events are those of the run as it went, from either state of \<^verbatim>\<open>Object.prototype\<close>.
\<close>

theorem track_records:
  assumes "processScheduleData polluted data = Some r"
    and "(key, track) \<in> set (res_tracks r)"
  shows "(case eventsWithTrackKey key (acceptedEvents polluted (members (pd_day data))) of
            [] \<Rightarrow> False
          | first # later \<Rightarrow>
              t_name track = e_track first \<and> t_type track = e_type first \<and> t_room track = e_room first
              \<and> t_day track = firstSeen (map e_day (first # later))
              \<and> distinct (t_day track)
              \<and> t_eventCount track = length (first # later))
       \<and> (\<forall>e \<in> set (acceptedEvents polluted (members (pd_day data))).
             e_trackKey e = filter (\<lambda>c. \<not> isWhitespace c) (toLowerCase (e_track e)))"
proof -
  from assms(1) obtain result where
    run: "runDays polluted data = Some result"
    and r: "res_tracks r = g_tracks result"
    by (auto simp: processScheduleData_def cleanUp_def)
  from run_tracks [OF runDays_Some [OF run]]
  have "forEach trackStep (acceptedEvents polluted (members (pd_day data))) [] = Some (g_tracks result)"
    by (simp add: initialResult_def)
  from tracks_trackOf [OF this, of key] assms(2) r
  have "trackOf key (acceptedEvents polluted (members (pd_day data))) = Some track"
    by (metis map_of_eq_Some_iff)
  then have first: "case eventsWithTrackKey key (acceptedEvents polluted (members (pd_day data))) of
           [] \<Rightarrow> False
         | first # later \<Rightarrow>
             t_name track = e_track first \<and> t_type track = e_type first \<and> t_room track = e_room first
             \<and> t_day track = firstSeen (map e_day (first # later))
             \<and> distinct (t_day track)
             \<and> t_eventCount track = length (first # later)"
    by (auto simp: trackOf_def split: list.splits)
  have "\<forall>e \<in> set (acceptedEvents polluted (members (pd_day data))).
           e_trackKey e = filter (\<lambda>c. \<not> isWhitespace c) (toLowerCase (e_track e))"
    by (auto dest!: acceptedEvents_classified dest: processEvent_fields(3))
  with first show ?thesis by simp
qed

theorem track_records_witness:
  "processScheduleData False trackSchedule \<noteq> None
   \<and> (''goperformance'', exampleTrack) \<in> set (res_tracks (the (processScheduleData False trackSchedule)))
   \<and> map e_id (eventsWithTrackKey ''goperformance'' (acceptedEvents False (members (pd_day trackSchedule))))
       = [''1'', ''3'', ''4'']
   \<and> (case eventsWithTrackKey ''goperformance'' (acceptedEvents False (members (pd_day trackSchedule))) of
            [] \<Rightarrow> False
          | first # later \<Rightarrow>
              t_name exampleTrack = e_track first \<and> t_type exampleTrack = e_type first
              \<and> t_room exampleTrack = e_room first
              \<and> t_day exampleTrack = firstSeen (map e_day (first # later))
              \<and> distinct (t_day exampleTrack)
              \<and> t_eventCount exampleTrack = length (first # later))"
proof -
  have h: "processScheduleData False trackSchedule = Some (the (processScheduleData False trackSchedule))"
    by code_simp
  have m: "(''goperformance'', exampleTrack) \<in> set (res_tracks (the (processScheduleData False trackSchedule)))"
    by code_simp
  have e: "map e_id (eventsWithTrackKey ''goperformance'' (acceptedEvents False (members (pd_day trackSchedule))))
             = [''1'', ''3'', ''4'']"
    by code_simp
  from h have "processScheduleData False trackSchedule \<noteq> None" by (metis option.distinct(1))
  with track_records [OF h m] m e show ?thesis by simp
qed

subsection \<open>Buildings without a recognized id\<close>

lemma inferBuildingId_no_capital:
  "\<not> beginsWithCapital roomName \<Longrightarrow> inferBuildingId roomName = ''''"
  by (cases roomName) (auto simp: inferBuildingId_def beginsWithCapital_def isUpperAZ_def)

text \<open>
  Claim C10 on a schedule whose first day has a talk in a room named \<open>__proto__\<close> and then
  a talk with the type text \<open>eventCount\<close> in the room \<open>main stage\<close>, whose name begins with
  no capital.  The first talk gives \<^verbatim>\<open>Object.prototype\<close> the property \<^verbatim>\<open>eventCount\<close>, so the
  second is accepted with the type \<open>eventCount\<close>.  Its building id, the empty string, is in
  the building set of the day, but no session type has that room or the event: the table
  counts three of the four accepted events.
\<close>

theorem unrecognized_building_without_session_type:
  "\<not> beginsWithCapital ''main stage''
   \<and> inferBuildingId ''main stage'' = ''''
   \<and> map_option
       (\<lambda>g. (map (\<lambda>e. (e_id e, e_type e)) (filter (\<lambda>e. e_room e = ''main stage'') (map snd (g_events g))),
             map (\<lambda>(k, d). (k, d_rooms d, d_buildings d)) (g_days g),
             map (\<lambda>(k, ty). (k, ti_rooms ty, ti_buildings ty)) (g_types g),
             sum_list (map (\<lambda>(k, ty). ti_eventCount ty) (g_types g)),
             length (g_events g)))
       (runDays False stageSchedule)
     = Some ([(''2'', ''eventCount'')],
             [(''1'', [''__proto__'', ''main stage''], ['''']),
              (''2'', [''H.1301'', ''H.1302''], [''H''])],
             [(''keynote'', [], []), (''maintrack'', [], []),
              (''devroom'', [''__proto__'', ''H.1301'', ''H.1302''], ['''', ''H'']),
              (''lightningtalk'', [], []), (''other'', [], [])],
             3, 4)"
  by code_simp

subsection \<open>Determinism\<close>

text \<open>
  Claim C9 on a schedule with a talk whose type text is \<open>eventCount\<close> and, after it, a talk
  in a room named \<open>__proto__\<close>.  The first run in a process returns a result and leaves
  \<^verbatim>\<open>Object.prototype\<close> with the property \<^verbatim>\<open>eventCount\<close>; the second run on the same document
  returns another result: the first talk has the type \<open>other\<close> in the first result and the
  type \<open>eventCount\<close> in the second, and the session type \<open>other\<close> has one event in the
  first and none in the second.
\<close>

theorem second_run_differs:
  "pollutedAfter False prototypeSchedule = Some True
   \<and> map_option
       (\<lambda>(first, second).
          (first = second,
           map_option e_type (map_of (res_events first) ''1''),
           map_option e_type (map_of (res_events second) ''1''),
           map_option ti_eventCount (map_of (res_types first) ''other''),
           map_option ti_eventCount (map_of (res_types second) ''other'')))
       (runTwice False prototypeSchedule)
     = Some (False, Some ''other'', Some ''eventCount'', Some 1, Some 0)"
  by code_simp


end
